theory Spec2Isabelle
  imports Complex_Main
begin

section \<open>Host objects\<close>

text \<open>
  The two source files extend a virtual-tabletop host. The host objects they read
  (\<^verbatim>\<open>canvas\<close>, \<^verbatim>\<open>game\<close>, tokens, events) are records here and are passed
  explicitly to every function that reads the corresponding global.

  JavaScript numbers are modelled as \<^typ>\<open>real\<close>: the arithmetic of the source is kept
  expression by expression, the rounding of IEEE-754 doubles is not modelled.
  \<^verbatim>\<open>Date.now()\<close> and the grid type are integers.
\<close>

datatype error = CanvasNotSetUp | TypeError

record point =
  px :: real
  py :: real

record token =
  tk_x :: real
  tk_y :: real
  tk_w :: real
  tk_h :: real
  tk_visible :: bool
  tk_center :: point
  tk_data_width :: real

text \<open>
  \<^verbatim>\<open>canvas.grid.getCenter\<close> and \<^verbatim>\<open>canvas.grid.measureDistance\<close> are host functions;
  they are fields of the canvas so that every result holds for any host geometry.
\<close>

record canvas =
  ready :: bool
  grid_type :: int
  grid_getCenter :: "real \<Rightarrow> real \<Rightarrow> real \<times> real"
  grid_measureDistance :: "point \<Rightarrow> point \<Rightarrow> real"
  tokens_placeables :: "token list"
  activeLayer :: "string option"
  has_scene :: bool

record user =
  user_id :: string
  user_color :: string

record game =
  game_user :: "user option"

text \<open>
  The host's table \<^verbatim>\<open>CONST\<close> is not part of the repository; the one entry the code reads
  is a parameter.
\<close>

record host_CONST =
  GRID_TYPES_SQUARE :: int

text \<open>\<^verbatim>\<open>!canvas?.ready\<close> is true when the canvas is missing or not ready.\<close>

definition canvas_ready :: "canvas option \<Rightarrow> bool" where
  "canvas_ready cv = (case cv of None \<Rightarrow> False | Some c \<Rightarrow> ready c)"

section \<open>The weapon range template\<close>

record range_partial =
  rp_type :: "string option"
  rp_val :: "real option"

text \<open>
  The object literal handed to the constructor: the host's template data together with
  the two optional keys \<^verbatim>\<open>isBurst\<close> and \<^verbatim>\<open>range\<close>. The host keeps it as
  \<^verbatim>\<open>this.data\<close>.
\<close>

record template_data =
  td_t :: string
  td_user :: "string option"
  td_distance :: real
  td_width :: real
  td_direction :: real
  td_x :: real
  td_y :: real
  td_angle :: real
  td_fillColor :: string
  td_isBurst :: "bool option"
  td_range :: "range_partial option"

record range_desc =
  range_type :: string
  range_val :: real

record template =
  data :: template_data
  isBurst :: bool
  tmpl_range :: range_desc

text \<open>
  The spread \<^verbatim>\<open>{ type: "", val: 0, ...data.range }\<close>: a key of \<^verbatim>\<open>data.range\<close> that is
  present overrides the default.
\<close>

definition spread_range :: "range_partial option \<Rightarrow> range_desc" where
  "spread_range r =
     (case r of
        None \<Rightarrow> \<lparr>range_type = '''', range_val = 0\<rparr>
      | Some p \<Rightarrow>
          \<lparr>range_type = (case rp_type p of None \<Rightarrow> '''' | Some ty \<Rightarrow> ty),
           range_val = (case rp_val p of None \<Rightarrow> 0 | Some v \<Rightarrow> v)\<rparr>)"

definition constructor :: "template_data \<Rightarrow> template" where
  "constructor d =
     \<lparr>data = d,
      isBurst = (case td_isBurst d of None \<Rightarrow> False | Some b \<Rightarrow> b),
      tmpl_range = spread_range (td_range d)\<rparr>"

text \<open>The \<^verbatim>\<open>switch\<close> of \<^verbatim>\<open>fromRange\<close>; \<open>None\<close> is its \<^verbatim>\<open>default\<close> branch.\<close>

definition shape_of :: "string \<Rightarrow> string option" where
  "shape_of ty =
     (if ty = ''Cone'' then Some ''cone''
      else if ty = ''Line'' then Some ''ray''
      else if ty = ''Burst'' \<or> ty = ''Blast'' then Some ''circle''
      else None)"

text \<open>
  \<^verbatim>\<open>fromRange\<close> returns \<^verbatim>\<open>null\<close> (\<open>Inr None\<close>) or a template. The literal reads
  \<^verbatim>\<open>game.user!.color\<close>, which raises a TypeError when no user is logged in.
\<close>

definition fromRange :: "canvas option \<Rightarrow> game \<Rightarrow> string \<Rightarrow> real \<Rightarrow> error + template option" where
  "fromRange cv g ty val =
     (case cv of
        None \<Rightarrow> Inr None
      | Some c \<Rightarrow>
          if \<not> ready c then Inr None
          else
            let hex = (grid_type c \<ge> 2) in
            case shape_of ty of
              None \<Rightarrow> Inr None
            | Some shape \<Rightarrow>
                let scale = (if hex then sqrt 3 / 2 else 1) in
                case game_user g of
                  None \<Rightarrow> Inl TypeError
                | Some u \<Rightarrow>
                    Inr (Some (constructor
                      \<lparr>td_t = shape,
                       td_user = Some (user_id u),
                       td_distance = (val + 0.1) * scale,
                       td_width = scale,
                       td_direction = 0,
                       td_x = 0,
                       td_y = 0,
                       td_angle = 58,
                       td_fillColor = user_color u,
                       td_isBurst = Some (ty = ''Burst''),
                       td_range = Some \<lparr>rp_type = Some ty, rp_val = Some val\<rparr>\<rparr>)))"

subsection \<open>Snapping helpers\<close>

definition snapToCenter :: "canvas option \<Rightarrow> point \<Rightarrow> error + point" where
  "snapToCenter cv p =
     (case cv of
        None \<Rightarrow> Inl CanvasNotSetUp
      | Some c \<Rightarrow>
          if \<not> ready c then Inl CanvasNotSetUp
          else
            let snapped = grid_getCenter c (px p) (py p) in
            Inr \<lparr>px = fst snapped, py = snd snapped\<rparr>)"

text \<open>
  \<^verbatim>\<open>getBurstDistance\<close>: the three \<^verbatim>\<open>if\<close> statements of each branch run one after the
  other on the mutable \<^verbatim>\<open>val\<close>.
\<close>

definition getBurstDistance :: "canvas option \<Rightarrow> template \<Rightarrow> real \<Rightarrow> error + real" where
  "getBurstDistance cv tm sz =
     (case cv of
        None \<Rightarrow> Inl CanvasNotSetUp
      | Some c \<Rightarrow>
          if \<not> ready c then Inl CanvasNotSetUp
          else
            let hex = (grid_type c > 1);
                scale = (if hex then sqrt 3 / 2 else 1);
                val = range_val (tmpl_range tm);
                val =
                  (if hex then
                     let v1 = (if sz = 2 then val + (0.7 - (if val > 2 then 0.1 else 0)) else val);
                         v2 = (if sz = 3 then v1 + 1.2 else v1);
                         v3 = (if sz = 4 then v2 + 1.5 else v2)
                     in v3
                   else
                     let v1 = (if sz = 2 then val + 0.9 else val);
                         v2 = (if sz = 3 then v1 + 1.4 else v1);
                         v3 = (if sz = 4 then v2 + 1.9 else v2)
                     in v3)
            in Inr ((val + 0.1) * scale))"

text \<open>The test of the \<^verbatim>\<open>filter\<close> callback: the cursor is strictly inside the token's box.\<close>

definition inside :: "point \<Rightarrow> token \<Rightarrow> bool" where
  "inside p t \<longleftrightarrow>
     tk_x t < px p \<and> tk_x t + tk_w t > px p \<and> tk_y t < py p \<and> tk_y t + tk_h t > py p"

text \<open>The \<^verbatim>\<open>reduce\<close> callback: hidden tokens are skipped, the closest centre wins.\<close>

definition closer :: "canvas option \<Rightarrow> point \<Rightarrow> token option \<Rightarrow> token \<Rightarrow> error + token option" where
  "closer cv p r t =
     (case cv of
        None \<Rightarrow> Inl CanvasNotSetUp
      | Some c \<Rightarrow>
          if \<not> ready c then Inl CanvasNotSetUp
          else if \<not> tk_visible t then Inr r
          else
            (case r of
               None \<Rightarrow> Inr (Some t)
             | Some r' \<Rightarrow>
                 if grid_measureDistance c p (tk_center t) < grid_measureDistance c p (tk_center r')
                 then Inr (Some t)
                 else Inr r))"

text \<open>\<^verbatim>\<open>Array.prototype.reduce\<close> with an initial value; a throwing callback ends it.\<close>

fun reduce :: "('r \<Rightarrow> 'a \<Rightarrow> error + 'r) \<Rightarrow> 'a list \<Rightarrow> 'r \<Rightarrow> error + 'r" where
  "reduce f [] r = Inr r"
| "reduce f (t # ts) r = (case f r t of Inl e \<Rightarrow> Inl e | Inr r' \<Rightarrow> reduce f ts r')"

text \<open>
  \<^verbatim>\<open>snapToToken\<close> writes \<^verbatim>\<open>this.data.distance\<close> and returns a point: the model returns
  the updated template with the point.
\<close>

definition snapToToken :: "canvas option \<Rightarrow> template \<Rightarrow> point \<Rightarrow> error + (template \<times> point)" where
  "snapToToken cv tm p =
     (case cv of
        None \<Rightarrow> Inl CanvasNotSetUp
      | Some c \<Rightarrow>
          if \<not> ready c then Inl CanvasNotSetUp
          else
            case reduce (closer cv p) (filter (inside p) (tokens_placeables c)) None of
              Inl e \<Rightarrow> Inl e
            | Inr (Some tok) \<Rightarrow>
                (case getBurstDistance cv tm (tk_data_width tok) of
                   Inl e \<Rightarrow> Inl e
                 | Inr d \<Rightarrow> Inr (tm\<lparr>data := (data tm)\<lparr>td_distance := d\<rparr>\<rparr>, tk_center tok))
            | Inr None \<Rightarrow>
                (let tm' = tm\<lparr>data := (data tm)\<lparr>td_distance := 0\<rparr>\<rparr> in
                 case snapToCenter cv p of
                   Inl e \<Rightarrow> Inl e
                 | Inr q \<Rightarrow> Inr (tm', q)))"

subsection \<open>The placement session\<close>

text \<open>
  \<^verbatim>\<open>activatePreviewListeners\<close> builds four closures over the template, the layer that
  was active before and the local \<^verbatim>\<open>moveTime\<close>. The session record holds what they
  capture; \<open>trace\<close> lists, in order, the calls made on host objects.
\<close>

datatype handler = MM | RC | LC | MW

datatype effect =
    StopPropagation
  | PreventDefault
  | Draw
  | Refresh
  | TemplateLayerActivate
  | PreviewAddChild
  | PreviewRemoveChildren
  | StageOn string handler
  | StageOff string handler
  | SetOnContextMenu "handler option"
  | SetOnWheel "handler option"
  | LayerActivate string
  | CreateEmbeddedEntity string template_data

record session =
  tmpl :: template
  initialLayer :: string
  moveTime :: int
  trace :: "effect list"

record move_event =
  local_position :: point

record wheel_event =
  ctrlKey :: bool
  shiftKey :: bool
  deltaY :: real

definition emit :: "effect list \<Rightarrow> session \<Rightarrow> session" where
  "emit es s = s\<lparr>trace := trace s @ es\<rparr>"

definition set_position :: "point \<Rightarrow> template \<Rightarrow> template" where
  "set_position q tm = tm\<lparr>data := (data tm)\<lparr>td_x := px q, td_y := py q\<rparr>\<rparr>"

definition activatePreviewListeners ::
  "canvas option \<Rightarrow> string \<Rightarrow> template \<Rightarrow> effect list \<Rightarrow> session" where
  "activatePreviewListeners cv layer tm tr =
     (let s = \<lparr>tmpl = tm, initialLayer = layer, moveTime = 0, trace = tr\<rparr> in
      if \<not> canvas_ready cv then s
      else emit [StageOn ''mousemove'' MM, StageOn ''mousedown'' LC,
                 SetOnContextMenu (Some RC), SetOnWheel (Some MW)] s)"

definition drawPreview :: "canvas option \<Rightarrow> template \<Rightarrow> session option" where
  "drawPreview cv tm =
     (case cv of
        None \<Rightarrow> None
      | Some c \<Rightarrow>
          if \<not> ready c then None
          else
            case activeLayer c of
              None \<Rightarrow> None
            | Some layer \<Rightarrow>
                Some (activatePreviewListeners cv layer tm
                        [Draw, TemplateLayerActivate, PreviewAddChild]))"

text \<open>
  The mouse-move handler; \<open>now\<close> is the value of \<^verbatim>\<open>Date.now()\<close> at the call. It
  does not test the canvas itself: the snapping helper it calls throws. \<open>mm_snap\<close> is
  its \<^verbatim>\<open>if (this.isBurst) ... else ...\<close> statement.
\<close>

definition mm_snap :: "canvas option \<Rightarrow> template \<Rightarrow> point \<Rightarrow> error + (template \<times> point)" where
  "mm_snap cv tm center =
     (if isBurst tm then snapToToken cv tm center
      else (case snapToCenter cv center of
              Inl e \<Rightarrow> Inl e
            | Inr q \<Rightarrow> Inr (tm, q)))"

definition mm :: "canvas option \<Rightarrow> int \<Rightarrow> move_event \<Rightarrow> session \<Rightarrow> error + session" where
  "mm cv now ev s0 =
     (let s = emit [StopPropagation] s0 in
      if now - moveTime s \<le> 20 then Inr s
      else
        let center = local_position ev in
        case mm_snap cv (tmpl s) center of
          Inl e \<Rightarrow> Inl e
        | Inr (tm, snapped) \<Rightarrow>
            Inr ((emit [Refresh] (s\<lparr>tmpl := set_position snapped tm\<rparr>))\<lparr>moveTime := now\<rparr>))"

definition rc :: "canvas option \<Rightarrow> session \<Rightarrow> session" where
  "rc cv s =
     (if \<not> canvas_ready cv then s
      else emit [PreviewRemoveChildren,
                 StageOff ''mousemove'' MM,
                 StageOff ''mousedown'' LC,
                 SetOnContextMenu None,
                 SetOnWheel None,
                 LayerActivate (initialLayer s)] s)"

text \<open>
  The left-click handler calls the right-click handler first and creates the scene
  object afterwards; \<^verbatim>\<open>canvas.scene!\<close> raises a TypeError when there is no scene.
\<close>

definition lc :: "canvas option \<Rightarrow> session \<Rightarrow> error + session" where
  "lc cv s0 =
     (case cv of
        None \<Rightarrow> Inr s0
      | Some c \<Rightarrow>
          if \<not> ready c then Inr s0
          else
            let s = rc cv s0 in
            if \<not> has_scene c then Inl TypeError
            else Inr (emit [CreateEmbeddedEntity ''MeasuredTemplate'' (data (tmpl s))] s))"

text \<open>The wheel handler; \<^verbatim>\<open>Math.sign\<close> is \<^const>\<open>sgn\<close>, which is 0 at 0.\<close>

definition mw :: "host_CONST \<Rightarrow> canvas option \<Rightarrow> wheel_event \<Rightarrow> session \<Rightarrow> session" where
  "mw K cv ev s0 =
     (case cv of
        None \<Rightarrow> s0
      | Some c \<Rightarrow>
          if \<not> ready c then s0
          else
            let s1 = (if ctrlKey ev then emit [PreventDefault] s0 else s0);
                s2 = emit [StopPropagation] s1;
                delta = (if grid_type c > GRID_TYPES_SQUARE K then 30 else 15);
                snap = (if shiftKey ev then delta else 5);
                tm = tmpl s2;
                d = data tm
            in emit [Refresh]
                 (s2\<lparr>tmpl := tm\<lparr>data := d\<lparr>td_direction := td_direction d + snap * sgn (deltaY ev)\<rparr>\<rparr>\<rparr>))"

section \<open>The deployable sheet\<close>

text \<open>
  \<^verbatim>\<open>getData\<close> starts from \<^verbatim>\<open>super.getData()\<close>, which belongs to a class outside the
  two files: its result is the argument. The record extensions stand for every field
  other than the two names. The \<^verbatim>\<open>console.log\<close> call does not change the result
  and is left out.
\<close>

record deployable =
  dep_name :: string

record actor =
  actor_name :: string

record ('d, 'a) sheet_data =
  sd_data :: "'d deployable_scheme"
  sd_actor :: "'a actor_scheme"

definition getData :: "('d, 'a, 'm) sheet_data_scheme \<Rightarrow> ('d, 'a, 'm) sheet_data_scheme" where
  "getData super_data =
     (let data = super_data in
      if dep_name (sd_data data) = ''''
      then data\<lparr>sd_data := (sd_data data)\<lparr>dep_name := actor_name (sd_actor data)\<rparr>\<rparr>
      else data)"

section \<open>The specification's tables\<close>

text \<open>
  The burst offsets as the specification lists them: by grid kind and token footprint,
  with the correction of 0.1 on hexagonal grids for footprint 2 when the range exceeds 2.
\<close>

definition spec_burst_offset :: "bool \<Rightarrow> real \<Rightarrow> real \<Rightarrow> real" where
  "spec_burst_offset hex sz val =
     (if hex then
        (if sz = 2 then 0.7 - (if val > 2 then 0.1 else 0)
         else if sz = 3 then 1.2
         else if sz = 4 then 1.5
         else 0)
      else
        (if sz = 2 then 0.9
         else if sz = 3 then 1.4
         else if sz = 4 then 1.9
         else 0))"

text \<open>
  The rotation increment as the specification lists it: 5 degrees, or with Shift held 15
  degrees on a grid whose type is at most \<^verbatim>\<open>SQUARE\<close> and 30 degrees on the others.
\<close>

definition spec_wheel_step :: "host_CONST \<Rightarrow> canvas \<Rightarrow> wheel_event \<Rightarrow> real" where
  "spec_wheel_step K c ev =
     (if shiftKey ev then (if grid_type c \<le> GRID_TYPES_SQUARE K then 15 else 30) else 5)"

definition session_direction :: "session \<Rightarrow> real" where
  "session_direction s = td_direction (data (tmpl s))"

text \<open>\<open>precedes a b xs\<close>: some occurrence of \<open>a\<close> in \<open>xs\<close> has a \<open>b\<close> after it.\<close>

fun precedes :: "'a \<Rightarrow> 'a \<Rightarrow> 'a list \<Rightarrow> bool" where
  "precedes a b [] = False"
| "precedes a b (x # xs) = ((x = a \<and> b \<in> set xs) \<or> precedes a b xs)"

section \<open>Concrete inputs\<close>

text \<open>
  A host with cells of side 100 whose distance is the Manhattan distance, one visible
  token of footprint 2 and a hidden copy of it at the same place.
\<close>

definition cell_center :: "real \<Rightarrow> real \<Rightarrow> real \<times> real" where
  "cell_center a b = (of_int \<lfloor>a / 100\<rfloor> * 100 + 50, of_int \<lfloor>b / 100\<rfloor> * 100 + 50)"

definition manhattan :: "point \<Rightarrow> point \<Rightarrow> real" where
  "manhattan p q = \<bar>px p - px q\<bar> + \<bar>py p - py q\<bar>"

definition example_token :: token where
  "example_token =
     \<lparr>tk_x = 100, tk_y = 100, tk_w = 200, tk_h = 200, tk_visible = True,
      tk_center = \<lparr>px = 200, py = 200\<rparr>, tk_data_width = 2\<rparr>"

definition hidden_token :: token where
  "hidden_token = example_token\<lparr>tk_visible := False\<rparr>"

definition square_canvas :: canvas where
  "square_canvas =
     \<lparr>ready = True, grid_type = 1, grid_getCenter = cell_center,
      grid_measureDistance = manhattan, tokens_placeables = [hidden_token, example_token],
      activeLayer = Some ''tokens'', has_scene = True\<rparr>"

definition hex_canvas :: canvas where
  "hex_canvas = square_canvas\<lparr>grid_type := 2\<rparr>"

definition hidden_canvas :: canvas where
  "hidden_canvas = square_canvas\<lparr>tokens_placeables := [hidden_token]\<rparr>"

definition example_CONST :: host_CONST where
  "example_CONST = \<lparr>GRID_TYPES_SQUARE = 1\<rparr>"

definition example_user :: user where
  "example_user = \<lparr>user_id = ''u1'', user_color = ''#ff0000''\<rparr>"

definition example_game :: game where
  "example_game = \<lparr>game_user = Some example_user\<rparr>"

definition cone_template :: template where
  "cone_template =
     \<lparr>data =
        \<lparr>td_t = ''cone'', td_user = Some ''u1'', td_distance = 5.1, td_width = 1,
         td_direction = 0, td_x = 0, td_y = 0, td_angle = 58, td_fillColor = ''#ff0000'',
         td_isBurst = Some False,
         td_range = Some \<lparr>rp_type = Some ''Cone'', rp_val = Some 5\<rparr>\<rparr>,
      isBurst = False,
      tmpl_range = \<lparr>range_type = ''Cone'', range_val = 5\<rparr>\<rparr>"

definition burst_template :: template where
  "burst_template =
     \<lparr>data =
        \<lparr>td_t = ''circle'', td_user = Some ''u1'', td_distance = 3.1, td_width = 1,
         td_direction = 0, td_x = 0, td_y = 0, td_angle = 58, td_fillColor = ''#ff0000'',
         td_isBurst = Some True,
         td_range = Some \<lparr>rp_type = Some ''Burst'', rp_val = Some 3\<rparr>\<rparr>,
      isBurst = True,
      tmpl_range = \<lparr>range_type = ''Burst'', range_val = 3\<rparr>\<rparr>"

definition blast_template :: template where
  "blast_template =
     \<lparr>data =
        \<lparr>td_t = ''circle'', td_user = Some ''u1'', td_distance = 3.1, td_width = 1,
         td_direction = 0, td_x = 0, td_y = 0, td_angle = 58, td_fillColor = ''#ff0000'',
         td_isBurst = Some False,
         td_range = Some \<lparr>rp_type = Some ''Blast'', rp_val = Some 3\<rparr>\<rparr>,
      isBurst = False,
      tmpl_range = \<lparr>range_type = ''Blast'', range_val = 3\<rparr>\<rparr>"

definition preview_trace :: "effect list" where
  "preview_trace =
     [Draw, TemplateLayerActivate, PreviewAddChild,
      StageOn ''mousemove'' MM, StageOn ''mousedown'' LC,
      SetOnContextMenu (Some RC), SetOnWheel (Some MW)]"

definition blast_session :: session where
  "blast_session =
     \<lparr>tmpl = blast_template, initialLayer = ''tokens'', moveTime = 0, trace = preview_trace\<rparr>"

definition burst_session :: session where
  "burst_session = blast_session\<lparr>tmpl := burst_template\<rparr>"

definition cone_session :: session where
  "cone_session = blast_session\<lparr>tmpl := cone_template\<rparr>"

definition move_a :: move_event where
  "move_a = \<lparr>local_position = \<lparr>px = 120, py = 130\<rparr>\<rparr>"

definition move_b :: move_event where
  "move_b = \<lparr>local_position = \<lparr>px = 420, py = 530\<rparr>\<rparr>"



definition cone_after_a :: session where
  "cone_after_a =
     cone_session\<lparr>tmpl := set_position \<lparr>px = 150, py = 150\<rparr> cone_template,
                  moveTime := 1000,
                  trace := preview_trace @ [StopPropagation, Refresh]\<rparr>"

definition cone_confirmed :: session where
  "cone_confirmed =
     cone_after_a\<lparr>trace := preview_trace @
        [StopPropagation, Refresh,
         PreviewRemoveChildren,
         StageOff ''mousemove'' MM,
         StageOff ''mousedown'' LC,
         SetOnContextMenu None,
         SetOnWheel None,
         LayerActivate ''tokens'',
         CreateEmbeddedEntity ''MeasuredTemplate'' (data (tmpl cone_after_a))]\<rparr>"

definition wheel_up :: wheel_event where
  "wheel_up = \<lparr>ctrlKey = False, shiftKey = False, deltaY = 100\<rparr>"

definition wheel_sideways :: wheel_event where
  "wheel_sideways = \<lparr>ctrlKey = False, shiftKey = False, deltaY = 0\<rparr>"

definition wheel_shift_down :: wheel_event where
  "wheel_shift_down = \<lparr>ctrlKey = False, shiftKey = True, deltaY = - 100\<rparr>"

section \<open>The examples are runs of the code\<close>

lemma fromRange_cone_example:
  "fromRange (Some square_canvas) example_game ''Cone'' 5 = Inr (Some cone_template)"
  by (simp add: fromRange_def square_canvas_def example_game_def example_user_def shape_of_def
        constructor_def spread_range_def cone_template_def)

lemma fromRange_burst_example:
  "fromRange (Some square_canvas) example_game ''Burst'' 3 = Inr (Some burst_template)"
  by (simp add: fromRange_def square_canvas_def example_game_def example_user_def shape_of_def
        constructor_def spread_range_def burst_template_def)


lemma drawPreview_blast_example:
  "drawPreview (Some square_canvas) blast_template = Some blast_session"
  by (simp add: drawPreview_def activatePreviewListeners_def square_canvas_def canvas_ready_def
        emit_def blast_session_def preview_trace_def)

lemma mm_cone_first:
  "mm (Some square_canvas) 1000 move_a cone_session = Inr cone_after_a"
  by (simp add: mm_def mm_snap_def emit_def move_a_def cone_session_def blast_session_def
        cone_template_def snapToCenter_def square_canvas_def cell_center_def cone_after_a_def
        set_position_def)

text \<open>
  On the same pointer position a burst template goes to the centre of the visible token
  under the pointer and takes the burst distance of a footprint of 2.
\<close>

lemma mm_burst_example:
  "mm (Some square_canvas) 1000 move_a burst_session =
     Inr (burst_session
            \<lparr>tmpl := set_position \<lparr>px = 200, py = 200\<rparr>
                       (burst_template\<lparr>data := (data burst_template)\<lparr>td_distance := 4\<rparr>\<rparr>),
             moveTime := 1000,
             trace := preview_trace @ [StopPropagation, Refresh]\<rparr>)"
  by (simp add: mm_def mm_snap_def emit_def burst_session_def blast_session_def
        burst_template_def snapToToken_def square_canvas_def inside_def move_a_def
        hidden_token_def example_token_def closer_def manhattan_def getBurstDistance_def
        set_position_def)

section \<open>Construction\<close>

text \<open>
  Claim C1. With a ready canvas (and a logged-in user, whose colour the template data
  reads), \<^verbatim>\<open>fromRange\<close> builds a template of shape \<^verbatim>\<open>cone\<close> for the type
  \<^verbatim>\<open>Cone\<close>, \<^verbatim>\<open>ray\<close> for \<^verbatim>\<open>Line\<close>, \<^verbatim>\<open>circle\<close> for \<^verbatim>\<open>Burst\<close> and \<^verbatim>\<open>Blast\<close>, and
  returns \<^verbatim>\<open>null\<close> for every other type string.
\<close>

theorem fromRange_shape:
  assumes "canvas_ready cv" and "game_user g = Some u"
  shows "(ty = ''Cone'' \<longrightarrow>
            (\<exists>t. fromRange cv g ty v = Inr (Some t) \<and> td_t (data t) = ''cone''))
       \<and> (ty = ''Line'' \<longrightarrow>
            (\<exists>t. fromRange cv g ty v = Inr (Some t) \<and> td_t (data t) = ''ray''))
       \<and> (ty = ''Burst'' \<or> ty = ''Blast'' \<longrightarrow>
            (\<exists>t. fromRange cv g ty v = Inr (Some t) \<and> td_t (data t) = ''circle''))
       \<and> (ty \<noteq> ''Cone'' \<and> ty \<noteq> ''Line'' \<and> ty \<noteq> ''Burst'' \<and> ty \<noteq> ''Blast'' \<longrightarrow>
            fromRange cv g ty v = Inr None)"
  using assms
  by (auto simp: fromRange_def canvas_ready_def shape_of_def constructor_def Let_def
           split: option.splits)

theorem fromRange_shape_witness:
  "canvas_ready (Some square_canvas) \<and> game_user example_game = Some example_user
 \<and> (\<exists>t. fromRange (Some square_canvas) example_game ''Cone'' 5 = Inr (Some t)
        \<and> td_t (data t) = ''cone'')
 \<and> (\<exists>t. fromRange (Some square_canvas) example_game ''Line'' 5 = Inr (Some t)
        \<and> td_t (data t) = ''ray'')
 \<and> (\<exists>t. fromRange (Some square_canvas) example_game ''Burst'' 5 = Inr (Some t)
        \<and> td_t (data t) = ''circle'')
 \<and> (\<exists>t. fromRange (Some square_canvas) example_game ''Blast'' 5 = Inr (Some t)
        \<and> td_t (data t) = ''circle'')
 \<and> fromRange (Some square_canvas) example_game ''Sphere'' 5 = Inr None"
proof -
  have r: "canvas_ready (Some square_canvas)"
    by (simp add: canvas_ready_def square_canvas_def)
  have u: "game_user example_game = Some example_user"
    by (simp add: example_game_def)
  note th = fromRange_shape [OF r u]
  show ?thesis
    using r u th [of "''Cone''" 5] th [of "''Line''" 5] th [of "''Burst''" 5]
      th [of "''Blast''" 5] th [of "''Sphere''" 5]
    by simp
qed

text \<open>
  Claim C2. For every supported range type and every \<open>val\<close> (non-negative or not), the
  template built on a ready canvas has distance \<open>(val + 0.1) * scale\<close>, with scale 1 on
  a grid that is not hexagonal (type below 2) and \<open>\<surd>3 / 2\<close> on a hexagonal one.
\<close>

theorem fromRange_distance:
  assumes "ready c" and "game_user g = Some u"
    and "ty = ''Cone'' \<or> ty = ''Line'' \<or> ty = ''Burst'' \<or> ty = ''Blast''"
  shows "\<exists>t. fromRange (Some c) g ty v = Inr (Some t)
           \<and> (grid_type c < 2 \<longrightarrow> td_distance (data t) = (v + 0.1) * 1)
           \<and> (grid_type c \<ge> 2 \<longrightarrow> td_distance (data t) = (v + 0.1) * (sqrt 3 / 2))"
  using assms
  by (auto simp: fromRange_def shape_of_def constructor_def Let_def)

theorem fromRange_distance_witness:
  "ready square_canvas \<and> ready hex_canvas \<and> game_user example_game = Some example_user
 \<and> (\<exists>t. fromRange (Some square_canvas) example_game ''Cone'' 5 = Inr (Some t)
        \<and> td_distance (data t) = 5.1)
 \<and> (\<exists>t. fromRange (Some hex_canvas) example_game ''Burst'' 5 = Inr (Some t)
        \<and> td_distance (data t) = 5.1 * (sqrt 3 / 2))"
proof -
  have r1: "ready square_canvas" and g1: "grid_type square_canvas = 1"
    by (simp_all add: square_canvas_def)
  have r2: "ready hex_canvas" and g2: "grid_type hex_canvas = 2"
    by (simp_all add: hex_canvas_def square_canvas_def)
  have u: "game_user example_game = Some example_user"
    by (simp add: example_game_def)
  show ?thesis
    using r1 r2 u g1 g2
      fromRange_distance [OF r1 u, of "''Cone''" 5]
      fromRange_distance [OF r2 u, of "''Burst''" 5]
    by simp
qed

section \<open>Burst sizing\<close>

text \<open>
  Claim C3. On a ready canvas and for a token footprint of 1, 2, 3 or 4,
  \<^verbatim>\<open>getBurstDistance\<close> returns \<open>(val + offset + 0.1) * scale\<close>, where \<open>val\<close> is the
  range of the template, \<open>offset\<close> is the entry of the specification's table for the grid
  kind and the footprint, and \<open>scale\<close> is \<open>\<surd>3 / 2\<close> on a hexagonal grid and 1 otherwise;
  on a square grid with footprint 2 this is \<open>(val + 0.9 + 0.1) * 1\<close>.
\<close>

theorem getBurstDistance_table:
  assumes "ready c" and "sz \<in> {1, 2, 3, 4}"
  shows "getBurstDistance (Some c) tm sz =
           Inr ((range_val (tmpl_range tm)
                  + spec_burst_offset (grid_type c > 1) sz (range_val (tmpl_range tm)) + 0.1)
                * (if grid_type c > 1 then sqrt 3 / 2 else 1))
       \<and> (grid_type c \<le> 1 \<and> sz = 2 \<longrightarrow>
            getBurstDistance (Some c) tm sz = Inr ((range_val (tmpl_range tm) + 0.9 + 0.1) * 1))"
  using assms
  by (auto simp: getBurstDistance_def spec_burst_offset_def Let_def)

theorem getBurstDistance_table_witness:
  "ready square_canvas \<and> ready hex_canvas \<and> (2::real) \<in> {1, 2, 3, 4}
 \<and> getBurstDistance (Some square_canvas) burst_template 2 = Inr 4
 \<and> getBurstDistance (Some hex_canvas) burst_template 2 = Inr (3.7 * (sqrt 3 / 2))"
proof -
  have r1: "ready square_canvas" and g1: "grid_type square_canvas = 1"
    by (simp_all add: square_canvas_def)
  have r2: "ready hex_canvas" and g2: "grid_type hex_canvas = 2"
    by (simp_all add: hex_canvas_def square_canvas_def)
  have m: "(2::real) \<in> {1, 2, 3, 4}" by simp
  have v: "range_val (tmpl_range burst_template) = 3"
    by (simp add: burst_template_def)
  show ?thesis
    using r1 r2 g1 g2 v
      getBurstDistance_table [OF r1 m, of burst_template]
      getBurstDistance_table [OF r2 m, of burst_template]
    by (simp add: spec_burst_offset_def)
qed

section \<open>Snapping\<close>

lemma reduce_closer_total:
  "canvas_ready cv \<Longrightarrow> \<exists>r'. reduce (closer cv p) ts r = Inr r'"
proof (induction ts arbitrary: r)
  case Nil
  then show ?case by simp
next
  case (Cons t ts)
  from Cons.prems have "\<exists>r1. closer cv p r t = Inr r1"
    by (auto simp: closer_def canvas_ready_def split: option.splits)
  then obtain r1 where "closer cv p r t = Inr r1" ..
  with Cons show ?case by simp
qed

lemma reduce_closer_hidden:
  "canvas_ready cv \<Longrightarrow> \<forall>t \<in> set ts. \<not> tk_visible t \<Longrightarrow> reduce (closer cv p) ts r = Inr r"
  by (induction ts arbitrary: r) (auto simp: closer_def canvas_ready_def split: option.splits)

lemma getBurstDistance_total:
  "canvas_ready cv \<Longrightarrow> \<exists>d. getBurstDistance cv tm sz = Inr d"
  by (auto simp: getBurstDistance_def canvas_ready_def Let_def split: option.splits)

lemma snapToCenter_total:
  "canvas_ready cv \<Longrightarrow> \<exists>q. snapToCenter cv p = Inr q"
  by (auto simp: snapToCenter_def canvas_ready_def Let_def split: option.splits)

lemma snapToToken_total:
  assumes "canvas_ready cv"
  shows "\<exists>r. snapToToken cv tm p = Inr r"
proof -
  from assms obtain c where c: "cv = Some c" "ready c"
    by (auto simp: canvas_ready_def split: option.splits)
  obtain r where r: "reduce (closer cv p) (filter (inside p) (tokens_placeables c)) None = Inr r"
    using reduce_closer_total [OF assms] by blast
  show ?thesis
  proof (cases r)
    case None
    with c r snapToCenter_total [OF assms, of p] show ?thesis
      by (auto simp: snapToToken_def)
  next
    case (Some tok)
    with c r getBurstDistance_total [OF assms, of tm "tk_data_width tok"] show ?thesis
      by (auto simp: snapToToken_def)
  qed
qed

text \<open>
  Claim C9. When the canvas is missing or not ready, each of \<^verbatim>\<open>snapToCenter\<close>,
  \<^verbatim>\<open>snapToToken\<close> and \<^verbatim>\<open>getBurstDistance\<close> throws instead of returning; when the
  canvas is ready each of them returns a value, so the throwing branch is not reached.
\<close>

theorem snapping_helpers_throw_iff_not_ready:
  "(\<not> canvas_ready cv \<longrightarrow>
      snapToCenter cv p = Inl CanvasNotSetUp
    \<and> snapToToken cv tm p = Inl CanvasNotSetUp
    \<and> getBurstDistance cv tm sz = Inl CanvasNotSetUp)
 \<and> (canvas_ready cv \<longrightarrow>
      (\<exists>q. snapToCenter cv p = Inr q)
    \<and> (\<exists>r. snapToToken cv tm p = Inr r)
    \<and> (\<exists>d. getBurstDistance cv tm sz = Inr d))"
proof (cases "canvas_ready cv")
  case True
  then show ?thesis
    using snapToCenter_total snapToToken_total getBurstDistance_total by blast
next
  case False
  then show ?thesis
    by (auto simp: canvas_ready_def snapToCenter_def snapToToken_def getBurstDistance_def
             split: option.splits)
qed

theorem snapping_helpers_throw_iff_not_ready_witness:
  "\<not> canvas_ready None \<and> canvas_ready (Some square_canvas)
 \<and> snapToCenter None \<lparr>px = 150, py = 150\<rparr> = Inl CanvasNotSetUp
 \<and> snapToToken None burst_template \<lparr>px = 150, py = 150\<rparr> = Inl CanvasNotSetUp
 \<and> getBurstDistance None burst_template 2 = Inl CanvasNotSetUp
 \<and> (\<exists>q. snapToCenter (Some square_canvas) \<lparr>px = 150, py = 150\<rparr> = Inr q)
 \<and> (\<exists>r. snapToToken (Some square_canvas) burst_template \<lparr>px = 150, py = 150\<rparr> = Inr r)
 \<and> (\<exists>d. getBurstDistance (Some square_canvas) burst_template 2 = Inr d)"
proof -
  have n: "\<not> canvas_ready None"
    by (simp add: canvas_ready_def)
  have r: "canvas_ready (Some square_canvas)"
    by (simp add: canvas_ready_def square_canvas_def)
  show ?thesis
    using n r
      snapping_helpers_throw_iff_not_ready
        [of None "\<lparr>px = 150, py = 150\<rparr>" burst_template 2]
      snapping_helpers_throw_iff_not_ready
        [of "Some square_canvas" "\<lparr>px = 150, py = 150\<rparr>" burst_template 2]
    by simp
qed

text \<open>
  Claim C5. On a ready canvas, when no visible token's box contains the pointer,
  \<^verbatim>\<open>snapToToken\<close> returns the point that \<^verbatim>\<open>snapToCenter\<close> returns for that position
  and sets the template's distance to 0.
\<close>

theorem snapToToken_fallback:
  assumes "ready c"
    and "\<forall>t \<in> set (tokens_placeables c). tk_visible t \<longrightarrow> \<not> inside p t"
  shows "\<exists>q. snapToCenter (Some c) p = Inr q
           \<and> snapToToken (Some c) tm p = Inr (tm\<lparr>data := (data tm)\<lparr>td_distance := 0\<rparr>\<rparr>, q)"
proof -
  have rdy: "canvas_ready (Some c)"
    using assms(1) by (simp add: canvas_ready_def)
  have "\<forall>t \<in> set (filter (inside p) (tokens_placeables c)). \<not> tk_visible t"
    using assms(2) by auto
  then have red: "reduce (closer (Some c) p) (filter (inside p) (tokens_placeables c)) None = Inr None"
    using reduce_closer_hidden [OF rdy] by blast
  obtain q where q: "snapToCenter (Some c) p = Inr q"
    using snapToCenter_total [OF rdy] by blast
  with red assms(1) show ?thesis
    by (simp add: snapToToken_def)
qed

text \<open>
  In the example a hidden token lies under the pointer: it is skipped, the template goes
  to the centre of the cell and its distance becomes 0.
\<close>

theorem snapToToken_fallback_witness:
  "ready hidden_canvas
 \<and> tokens_placeables hidden_canvas = [hidden_token]
 \<and> \<not> tk_visible hidden_token
 \<and> inside \<lparr>px = 120, py = 130\<rparr> hidden_token
 \<and> snapToCenter (Some hidden_canvas) \<lparr>px = 120, py = 130\<rparr> = Inr \<lparr>px = 150, py = 150\<rparr>
 \<and> snapToToken (Some hidden_canvas) burst_template \<lparr>px = 120, py = 130\<rparr>
      = Inr (burst_template\<lparr>data := (data burst_template)\<lparr>td_distance := 0\<rparr>\<rparr>,
             \<lparr>px = 150, py = 150\<rparr>)"
proof -
  have r: "ready hidden_canvas" and ts: "tokens_placeables hidden_canvas = [hidden_token]"
    by (simp_all add: hidden_canvas_def square_canvas_def)
  have v: "\<not> tk_visible hidden_token"
    by (simp add: hidden_token_def)
  have i: "inside \<lparr>px = 120, py = 130\<rparr> hidden_token"
    by (simp add: inside_def hidden_token_def example_token_def)
  have h: "\<forall>t \<in> set (tokens_placeables hidden_canvas).
             tk_visible t \<longrightarrow> \<not> inside \<lparr>px = 120, py = 130\<rparr> t"
    using ts v by simp
  have c: "snapToCenter (Some hidden_canvas) \<lparr>px = 120, py = 130\<rparr> = Inr \<lparr>px = 150, py = 150\<rparr>"
    by (simp add: snapToCenter_def hidden_canvas_def square_canvas_def cell_center_def)
  show ?thesis
    using r ts v i c snapToToken_fallback [OF r h, of burst_template]
    by simp
qed

section \<open>Previewing\<close>

lemma mm_snap_total:
  "canvas_ready cv \<Longrightarrow> \<exists>tm' q. mm_snap cv tm p = Inr (tm', q)"
  using snapToToken_total [of cv tm p] snapToCenter_total [of cv p]
  by (auto simp: mm_snap_def)

lemma mm_dropped:
  "now - moveTime s \<le> 20 \<Longrightarrow> mm cv now ev s = Inr (s\<lparr>trace := trace s @ [StopPropagation]\<rparr>)"
  by (simp add: mm_def emit_def Let_def)

lemma mm_applied:
  "20 < now - moveTime s \<Longrightarrow> mm_snap cv (tmpl s) (local_position ev) = Inr (tm', q) \<Longrightarrow>
   mm cv now ev s =
     Inr (s\<lparr>tmpl := set_position q tm', moveTime := now,
            trace := trace s @ [StopPropagation, Refresh]\<rparr>)"
  by (simp add: mm_def emit_def Let_def)

text \<open>
  Claim C4, amended. On a ready canvas, let a first move event be applied at time \<open>t1\<close>
  (it snaps, refreshes and records \<open>t1\<close>). A second move event at time \<open>t2\<close> is a no-op
  when \<open>t2 - t1 \<le> 20\<close>: it only stops the event's propagation, and the template and
  the recorded time stay as they are. When \<open>t2 - t1 > 20\<close> the second event snaps and
  refreshes as well.
\<close>

theorem mm_throttle:
  assumes "canvas_ready cv" and "20 < t1 - moveTime s0"
  shows "\<exists>s1. mm cv t1 e1 s0 = Inr s1
           \<and> moveTime s1 = t1
           \<and> trace s1 = trace s0 @ [StopPropagation, Refresh]
           \<and> (t2 - t1 \<le> 20 \<longrightarrow>
                mm cv t2 e2 s1 = Inr (s1\<lparr>trace := trace s1 @ [StopPropagation]\<rparr>))
           \<and> (20 < t2 - t1 \<longrightarrow>
                (\<exists>tm' q. mm_snap cv (tmpl s1) (local_position e2) = Inr (tm', q)
                   \<and> mm cv t2 e2 s1 =
                       Inr (s1\<lparr>tmpl := set_position q tm', moveTime := t2,
                               trace := trace s1 @ [StopPropagation, Refresh]\<rparr>)))"
proof -
  obtain tm1 q1 where a: "mm_snap cv (tmpl s0) (local_position e1) = Inr (tm1, q1)"
    using mm_snap_total [OF assms(1)] by blast
  define s1 where "s1 = s0\<lparr>tmpl := set_position q1 tm1, moveTime := t1,
                           trace := trace s0 @ [StopPropagation, Refresh]\<rparr>"
  have first: "mm cv t1 e1 s0 = Inr s1"
    using mm_applied [OF assms(2) a] by (simp add: s1_def)
  have mt: "moveTime s1 = t1" and tr: "trace s1 = trace s0 @ [StopPropagation, Refresh]"
    by (simp_all add: s1_def)
  have drop: "t2 - t1 \<le> 20 \<longrightarrow> mm cv t2 e2 s1 = Inr (s1\<lparr>trace := trace s1 @ [StopPropagation]\<rparr>)"
    using mm_dropped [where now = t2 and s = s1 and cv = cv and ev = e2] mt by simp
  obtain tm2 q2 where b: "mm_snap cv (tmpl s1) (local_position e2) = Inr (tm2, q2)"
    using mm_snap_total [OF assms(1)] by blast
  have app: "20 < t2 - t1 \<longrightarrow>
               mm cv t2 e2 s1 =
                 Inr (s1\<lparr>tmpl := set_position q2 tm2, moveTime := t2,
                         trace := trace s1 @ [StopPropagation, Refresh]\<rparr>)"
    using mm_applied [where now = t2 and s = s1 and cv = cv and ev = e2, OF _ b] mt by simp
  from first mt tr drop app b show ?thesis by blast
qed

text \<open>
  Claim C4 as stated fails at exactly 20 ms. The first event, at time 1000, moves the cone
  template to the cell centre (150, 150). The second, at time 1020, points into the cell
  whose centre is (450, 550), and is dropped: the trace has one \<open>Refresh\<close> and the
  template stays at (150, 150).
\<close>

theorem mm_throttle_counterexample:
  "mm (Some square_canvas) 1000 move_a cone_session = Inr cone_after_a
 \<and> (1020::int) - 1000 \<ge> 20
 \<and> mm (Some square_canvas) 1020 move_b cone_after_a
      = Inr (cone_after_a\<lparr>trace := preview_trace @ [StopPropagation, Refresh, StopPropagation]\<rparr>)
 \<and> count_list (preview_trace @ [StopPropagation, Refresh, StopPropagation]) Refresh = 1
 \<and> td_x (data (tmpl cone_after_a)) = 150 \<and> td_y (data (tmpl cone_after_a)) = 150
 \<and> snapToCenter (Some square_canvas) (local_position move_b) = Inr \<lparr>px = 450, py = 550\<rparr>"
proof -
  have "mm (Some square_canvas) 1020 move_b cone_after_a
          = Inr (cone_after_a\<lparr>trace := preview_trace @ [StopPropagation, Refresh, StopPropagation]\<rparr>)"
    by (simp add: mm_def emit_def cone_after_a_def)
  moreover have "count_list (preview_trace @ [StopPropagation, Refresh, StopPropagation]) Refresh = 1"
    by (simp add: preview_trace_def)
  moreover have "td_x (data (tmpl cone_after_a)) = 150 \<and> td_y (data (tmpl cone_after_a)) = 150"
    by (simp add: cone_after_a_def set_position_def)
  moreover have "snapToCenter (Some square_canvas) (local_position move_b) = Inr \<lparr>px = 450, py = 550\<rparr>"
    by (simp add: snapToCenter_def square_canvas_def cell_center_def move_b_def)
  ultimately show ?thesis
    using mm_cone_first by simp
qed

theorem mm_throttle_witness:
  "canvas_ready (Some square_canvas) \<and> 20 < 1000 - moveTime cone_session
 \<and> mm (Some square_canvas) 1000 move_a cone_session = Inr cone_after_a
 \<and> mm (Some square_canvas) 1015 move_b cone_after_a
      = Inr (cone_after_a\<lparr>trace := trace cone_after_a @ [StopPropagation]\<rparr>)
 \<and> mm (Some square_canvas) 1021 move_b cone_after_a
      = Inr (cone_after_a\<lparr>tmpl := set_position \<lparr>px = 450, py = 550\<rparr> (tmpl cone_after_a),
                           moveTime := 1021,
                           trace := trace cone_after_a @ [StopPropagation, Refresh]\<rparr>)"
proof -
  have r: "canvas_ready (Some square_canvas)"
    by (simp add: canvas_ready_def square_canvas_def)
  have t: "20 < 1000 - moveTime cone_session"
    by (simp add: cone_session_def blast_session_def)
  have sn: "mm_snap (Some square_canvas) (tmpl cone_after_a) (local_position move_b)
              = Inr (tmpl cone_after_a, \<lparr>px = 450, py = 550\<rparr>)"
    by (simp add: mm_snap_def cone_after_a_def set_position_def cone_template_def
          snapToCenter_def square_canvas_def cell_center_def move_b_def)
  show ?thesis
    using r t sn mm_cone_first
      mm_throttle [OF r t, of move_a 1015 move_b]
      mm_throttle [OF r t, of move_a 1021 move_b]
    by auto
qed

lemma mw_direction:
  "ready c \<Longrightarrow>
   session_direction (mw K (Some c) ev s)
     = session_direction s + spec_wheel_step K c ev * sgn (deltaY ev)"
  by (simp add: mw_def emit_def Let_def session_direction_def spec_wheel_step_def)

lemma mw_funpow_direction:
  "ready c \<Longrightarrow>
   session_direction (((mw K (Some c) ev) ^^ n) s)
     = session_direction s + of_nat n * (spec_wheel_step K c ev * sgn (deltaY ev))"
  by (induction n) (simp_all add: mw_direction algebra_simps)

text \<open>
  Claim C6, amended. On a ready canvas a wheel event changes the direction by the step
  times the sign of \<^verbatim>\<open>deltaY\<close>: plus the step when \<^verbatim>\<open>deltaY\<close> is positive, minus the
  step when it is negative, and not at all when it is 0. The step is 5 without Shift, and
  with Shift 15 on a grid whose type is at most \<^verbatim>\<open>SQUARE\<close> and 30 on the others.
  Nothing is reduced modulo 360: \<open>n\<close> equal events add \<open>n\<close> times the change of one.
\<close>

theorem mw_rotation:
  assumes "ready c"
  shows "(0 < deltaY ev \<longrightarrow>
            session_direction (mw K (Some c) ev s) = session_direction s + spec_wheel_step K c ev)
       \<and> (deltaY ev < 0 \<longrightarrow>
            session_direction (mw K (Some c) ev s) = session_direction s - spec_wheel_step K c ev)
       \<and> (deltaY ev = 0 \<longrightarrow>
            session_direction (mw K (Some c) ev s) = session_direction s)
       \<and> session_direction (((mw K (Some c) ev) ^^ n) s)
            = session_direction s + of_nat n * (spec_wheel_step K c ev * sgn (deltaY ev))"
  using mw_direction [OF assms, where K = K and ev = ev and s = s]
    mw_funpow_direction [OF assms, where K = K and ev = ev and n = n and s = s]
  by simp

text \<open>
  Claim C6 as stated fails for a wheel event whose \<^verbatim>\<open>deltaY\<close> is 0 (a horizontal
  scroll): with no key held the direction stays at 0, it is neither 5 nor -5.
\<close>

theorem mw_rotation_counterexample:
  "session_direction cone_session = 0
 \<and> \<not> shiftKey wheel_sideways \<and> \<not> ctrlKey wheel_sideways
 \<and> session_direction (mw example_CONST (Some square_canvas) wheel_sideways cone_session) = 0
 \<and> session_direction (mw example_CONST (Some square_canvas) wheel_sideways cone_session)
      \<noteq> session_direction cone_session + 5
 \<and> session_direction (mw example_CONST (Some square_canvas) wheel_sideways cone_session)
      \<noteq> session_direction cone_session - 5"
  by (simp add: mw_def emit_def session_direction_def wheel_sideways_def square_canvas_def
        example_CONST_def cone_session_def blast_session_def cone_template_def)

theorem mw_rotation_witness:
  "ready square_canvas \<and> ready hex_canvas
 \<and> session_direction (mw example_CONST (Some square_canvas) wheel_up cone_session) = 5
 \<and> session_direction (mw example_CONST (Some square_canvas) wheel_shift_down cone_session) = - 15
 \<and> session_direction (mw example_CONST (Some hex_canvas) wheel_shift_down cone_session) = - 30
 \<and> session_direction (mw example_CONST (Some square_canvas) wheel_sideways cone_session) = 0
 \<and> session_direction (((mw example_CONST (Some square_canvas) wheel_up) ^^ 100) cone_session) = 500"
proof -
  have r1: "ready square_canvas" and g1: "grid_type square_canvas = 1"
    by (simp_all add: square_canvas_def)
  have r2: "ready hex_canvas" and g2: "grid_type hex_canvas = 2"
    by (simp_all add: hex_canvas_def square_canvas_def)
  have d: "session_direction cone_session = 0"
    by (simp add: session_direction_def cone_session_def cone_template_def)
  show ?thesis
    using r1 r2 g1 g2 d
      mw_rotation [OF r1, where ev = wheel_up and K = example_CONST and s = cone_session
        and n = 100]
      mw_rotation [OF r1, where ev = wheel_shift_down and K = example_CONST and s = cone_session
        and n = 1]
      mw_rotation [OF r2, where ev = wheel_shift_down and K = example_CONST and s = cone_session
        and n = 1]
      mw_rotation [OF r1, where ev = wheel_sideways and K = example_CONST and s = cone_session
        and n = 1]
    by (simp add: spec_wheel_step_def wheel_up_def wheel_shift_down_def wheel_sideways_def
          example_CONST_def)
qed

section \<open>Confirmation\<close>

text \<open>
  Claim C7, amended. On a left click with a ready canvas that has a scene, the handler
  first runs the cancel handler: the preview is emptied, the four listeners are removed
  and the layer that was active before is activated. Only then is the current template
  data handed to the scene's \<^verbatim>\<open>createEmbeddedEntity\<close>.
\<close>

theorem lc_order:
  assumes "ready c" and "has_scene c"
  shows "lc (Some c) s =
           Inr (s\<lparr>trace := trace s @
                  [PreviewRemoveChildren,
                   StageOff ''mousemove'' MM,
                   StageOff ''mousedown'' LC,
                   SetOnContextMenu None,
                   SetOnWheel None,
                   LayerActivate (initialLayer s),
                   CreateEmbeddedEntity ''MeasuredTemplate'' (data (tmpl s))]\<rparr>)"
  using assms by (simp add: lc_def rc_def emit_def canvas_ready_def Let_def)

text \<open>
  Claim C7 as stated has the creation call before the teardown. In the trace of a click
  the creation call precedes neither the removal of the move listener nor the activation
  of the earlier layer; both precede it.
\<close>

theorem lc_order_counterexample:
  "lc (Some square_canvas) cone_after_a = Inr cone_confirmed
 \<and> \<not> precedes (CreateEmbeddedEntity ''MeasuredTemplate'' (data (tmpl cone_after_a)))
        (StageOff ''mousemove'' MM) (trace cone_confirmed)
 \<and> \<not> precedes (CreateEmbeddedEntity ''MeasuredTemplate'' (data (tmpl cone_after_a)))
        (LayerActivate ''tokens'') (trace cone_confirmed)
 \<and> precedes (StageOff ''mousemove'' MM)
      (CreateEmbeddedEntity ''MeasuredTemplate'' (data (tmpl cone_after_a))) (trace cone_confirmed)
 \<and> precedes (LayerActivate ''tokens'')
      (CreateEmbeddedEntity ''MeasuredTemplate'' (data (tmpl cone_after_a))) (trace cone_confirmed)"
proof -
  have "lc (Some square_canvas) cone_after_a = Inr cone_confirmed"
    by (simp add: lc_def rc_def emit_def canvas_ready_def square_canvas_def cone_confirmed_def
          cone_after_a_def cone_session_def blast_session_def)
  moreover have "trace cone_confirmed = preview_trace @
        [StopPropagation, Refresh, PreviewRemoveChildren, StageOff ''mousemove'' MM,
         StageOff ''mousedown'' LC, SetOnContextMenu None, SetOnWheel None,
         LayerActivate ''tokens'',
         CreateEmbeddedEntity ''MeasuredTemplate'' (data (tmpl cone_after_a))]"
    by (simp add: cone_confirmed_def)
  ultimately show ?thesis
    by (simp add: preview_trace_def)
qed

theorem lc_order_witness:
  "ready square_canvas \<and> has_scene square_canvas
 \<and> lc (Some square_canvas) cone_after_a = Inr cone_confirmed"
proof -
  have r: "ready square_canvas" and h: "has_scene square_canvas"
    by (simp_all add: square_canvas_def)
  show ?thesis
    using r h lc_order [OF r h, of cone_after_a]
    by (simp add: cone_confirmed_def cone_after_a_def cone_session_def blast_session_def)
qed

section \<open>Burst and blast\<close>







section \<open>The sheet's name default\<close>

text \<open>
  Claim C8. When the name of the sheet record is the empty string, \<^verbatim>\<open>getData\<close>
  returns data whose name is the actor's name; when it is not empty the data is returned
  as it is; in both cases the actor, the other fields of the sheet record and the other
  fields of the render model are those of the input.
\<close>

theorem getData_name_default:
  "(dep_name (sd_data d) = '''' \<longrightarrow> dep_name (sd_data (getData d)) = actor_name (sd_actor d))
 \<and> (dep_name (sd_data d) \<noteq> '''' \<longrightarrow> getData d = d)
 \<and> sd_actor (getData d) = sd_actor d
 \<and> deployable.more (sd_data (getData d)) = deployable.more (sd_data d)
 \<and> sheet_data.more (getData d) = sheet_data.more d"
  by (simp add: getData_def Let_def)

theorem getData_name_default_witness:
  "dep_name (sd_data \<lparr>sd_data = \<lparr>dep_name = ''''\<rparr>, sd_actor = \<lparr>actor_name = ''Turret''\<rparr>\<rparr>) = ''''
 \<and> getData \<lparr>sd_data = \<lparr>dep_name = ''''\<rparr>, sd_actor = \<lparr>actor_name = ''Turret''\<rparr>\<rparr>
      = \<lparr>sd_data = \<lparr>dep_name = ''Turret''\<rparr>, sd_actor = \<lparr>actor_name = ''Turret''\<rparr>\<rparr>
 \<and> dep_name (sd_data \<lparr>sd_data = \<lparr>dep_name = ''Drone''\<rparr>, sd_actor = \<lparr>actor_name = ''Turret''\<rparr>\<rparr>) \<noteq> ''''
 \<and> getData \<lparr>sd_data = \<lparr>dep_name = ''Drone''\<rparr>, sd_actor = \<lparr>actor_name = ''Turret''\<rparr>\<rparr>
      = \<lparr>sd_data = \<lparr>dep_name = ''Drone''\<rparr>, sd_actor = \<lparr>actor_name = ''Turret''\<rparr>\<rparr>"
  using
    getData_name_default
      [of "\<lparr>sd_data = \<lparr>dep_name = ''''\<rparr>, sd_actor = \<lparr>actor_name = ''Turret''\<rparr>\<rparr>"]
    getData_name_default
      [of "\<lparr>sd_data = \<lparr>dep_name = ''Drone''\<rparr>, sd_actor = \<lparr>actor_name = ''Turret''\<rparr>\<rparr>"]
  by (simp add: sheet_data.equality deployable.equality)

end
